theory Spec2Isabelle
  imports Main "HOL-Library.Word"
begin

section \<open>JavaScript values and \<open>JSON.stringify\<close>\<close>

text \<open>
  The three Lambda handlers serialise whatever the EC2 client hands back with
  \<open>JSON.stringify\<close>, so the values they touch are modelled as finite trees: the
  primitives, arrays, and objects given by their own enumerable properties in
  enumeration order. Numbers are the integers from \<open>-2\<^sup>5\<^sup>3\<close> to \<open>2\<^sup>5\<^sup>3 - 1\<close> (status codes,
  retry counts, instance state codes): a signed word of 54 bits holds exactly these, each
  of them is a JavaScript number, and JavaScript writes each with all its digits.
  Strings are lists of 8-bit characters, which covers the ASCII text the handlers and
  the EC2 API exchange. A value of this type can always be serialised; the values on
  which \<open>JSON.stringify\<close> throws (cyclic objects, \<open>BigInt\<close>) come in with the type \<open>jsx\<close>
  further down.
\<close>

datatype js = JUndefined | JNull | JBool bool | JNum "54 word" | JStr string
  | JArr "js list" | JObj "(string \<times> js) list"

definition hex_digit :: "nat \<Rightarrow> char" where
  "hex_digit n = (''0123456789abcdef'' ! (n mod 16))"

text \<open>\<open>QuoteJSONString\<close> of ECMA-262: the two-character escapes, \<open>\u00XX\<close> for the
  other control characters, every other character as it is.\<close>

definition escape_char :: "char \<Rightarrow> string" where
  "escape_char c =
     (if c = CHR 0x22 then [CHR 0x5C, CHR 0x22]
      else if c = CHR 0x5C then [CHR 0x5C, CHR 0x5C]
      else if c = CHR 0x08 then [CHR 0x5C, CHR ''b'']
      else if c = CHR 0x0C then [CHR 0x5C, CHR ''f'']
      else if c = CHR 0x0A then [CHR 0x5C, CHR ''n'']
      else if c = CHR 0x0D then [CHR 0x5C, CHR ''r'']
      else if c = CHR 0x09 then [CHR 0x5C, CHR ''t'']
      else if (of_char c :: nat) < 32
        then [CHR 0x5C, CHR ''u'', CHR ''0'', CHR ''0'',
              hex_digit (of_char c div 16), hex_digit (of_char c)]
      else [c])"

definition quote :: "string \<Rightarrow> string" where
  "quote s = CHR 0x22 # concat (map escape_char s) @ [CHR 0x22]"

function digits :: "nat \<Rightarrow> string" where
  "digits n = (if n < 10 then [hex_digit n] else digits (n div 10) @ [hex_digit (n mod 10)])"
  by pat_completeness auto
termination
  by (relation "measure id") auto

definition number_to_string :: "int \<Rightarrow> string" where
  "number_to_string i = (if i < 0 then CHR ''-'' # digits (nat (- i)) else digits (nat i))"

fun join :: "string \<Rightarrow> string list \<Rightarrow> string" where
  "join sep [] = []"
| "join sep [x] = x"
| "join sep (x # y # ys) = x @ sep @ join sep (y # ys)"

text \<open>
  \<open>SerializeJSONProperty\<close>: \<open>None\<close> is the result \<open>undefined\<close>. An \<open>undefined\<close> array
  element is written \<open>null\<close>; an object property whose value is \<open>undefined\<close> is left out.
\<close>

primrec serialize :: "js \<Rightarrow> string option"
  and serialize_elements :: "js list \<Rightarrow> string list"
  and serialize_members :: "(string \<times> js) list \<Rightarrow> string list"
  and serialize_member :: "string \<times> js \<Rightarrow> string option"
where
  "serialize JUndefined = None"
| "serialize JNull = Some ''null''"
| "serialize (JBool b) = Some (if b then ''true'' else ''false'')"
| "serialize (JNum i) = Some (number_to_string (sint i))"
| "serialize (JStr s) = Some (quote s)"
| "serialize (JArr xs) = Some (''['' @ join '','' (serialize_elements xs) @ '']'')"
| "serialize (JObj ps) = Some (''{'' @ join '','' (serialize_members ps) @ ''}'')"
| "serialize_elements [] = []"
| "serialize_elements (x # xs) =
     (case serialize x of None \<Rightarrow> ''null'' | Some s \<Rightarrow> s) # serialize_elements xs"
| "serialize_members [] = []"
| "serialize_members (p # ps) =
     (case serialize_member p of
        None \<Rightarrow> serialize_members ps
      | Some s \<Rightarrow> s # serialize_members ps)"
| "serialize_member (k, v) =
     (case serialize v of None \<Rightarrow> None | Some s \<Rightarrow> Some (quote k @ '':'' @ s))"

text \<open>\<open>JSON.stringify(v)\<close> is a JavaScript value itself: a string, or \<open>undefined\<close>.\<close>

definition JSON_stringify :: "js \<Rightarrow> js" where
  "JSON_stringify v = (case serialize v of None \<Rightarrow> JUndefined | Some s \<Rightarrow> JStr s)"


section \<open>The Lambda handlers\<close>

text \<open>
  \<open>process.env\<close> maps a variable name to its value, when set. The EC2 client is the
  external collaborator: \<open>client.send(command)\<close> settles either with the command's
  output object (its properties) or with a rejection value, which the \<open>catch\<close> clause
  binds untyped. The handlers build the command from \<open>[instanceId!]\<close>, so the list
  holds the variable's value as read, \<open>None\<close> for \<open>undefined\<close>.
\<close>

type_synonym process_env = "string \<rightharpoonup> string"

record EC2Client =
  region :: "string option"

datatype ec2_command =
    StartInstancesCommand "string option list"
  | StopInstancesCommand "string option list"
  | RebootInstancesCommand "string option list"

datatype settled = Fulfilled "(string \<times> js) list" | Rejected js

type_synonym provider = "EC2Client \<Rightarrow> ec2_command \<Rightarrow> settled"

datatype console_call = ConsoleLog "js list" | ConsoleError "js list"

record http_response =
  statusCode :: int
  headers :: "(string \<times> string) list"
  body :: js

text \<open>One invocation: what it wrote to the console, the commands it sent, and the
  value it returned.\<close>

record invocation =
  console :: "console_call list"
  sent :: "(EC2Client \<times> ec2_command) list"
  returned :: http_response

definition env_value :: "string option \<Rightarrow> js" where
  "env_value v = (case v of None \<Rightarrow> JUndefined | Some s \<Rightarrow> JStr s)"

text \<open>
  Each handler is declared \<open>async () => { ... }\<close>: it binds none of the arguments the
  runtime calls it with (the request event and the context), here \<open>args\<close>.
\<close>

definition handler_start :: "js list \<Rightarrow> process_env \<Rightarrow> provider \<Rightarrow> invocation" where
  "handler_start args env send =
     (let instanceId = env ''INSTANCE_ID'';
          attempt = ConsoleLog [JStr ''Attempting to start game server'', env_value instanceId];
          client = \<lparr>region = env ''AWS_REGION''\<rparr>;
          command = StartInstancesCommand [instanceId]
      in case send client command of
           Fulfilled response \<Rightarrow>
             \<lparr>console = [attempt, ConsoleLog [JSON_stringify (JObj response)]],
              sent = [(client, command)],
              returned = \<lparr>statusCode = 200,
                headers = [(''Content-Type'', ''text/json'')],
                body = JSON_stringify (JObj
                  [(''message'', JStr ''Started satisfactory server''),
                   (''response'', JSON_stringify (JObj response))])\<rparr>\<rparr>
         | Rejected error \<Rightarrow>
             \<lparr>console = [attempt, ConsoleError [JSON_stringify error]],
              sent = [(client, command)],
              returned = \<lparr>statusCode = 200,
                headers = [(''Content-Type'', ''text/json'')],
                body = JSON_stringify (JObj
                  [(''message'', JStr ''Failed to start satisfactory server''),
                   (''response'', JSON_stringify error)])\<rparr>\<rparr>)"

definition handler_stop :: "js list \<Rightarrow> process_env \<Rightarrow> provider \<Rightarrow> invocation" where
  "handler_stop args env send =
     (let instanceId = env ''INSTANCE_ID'';
          attempt = ConsoleLog [JStr ''Attempting to stop game server'', env_value instanceId];
          client = \<lparr>region = env ''AWS_REGION''\<rparr>;
          command = StopInstancesCommand [instanceId]
      in case send client command of
           Fulfilled response \<Rightarrow>
             \<lparr>console = [attempt, ConsoleLog [JSON_stringify (JObj response)]],
              sent = [(client, command)],
              returned = \<lparr>statusCode = 200,
                headers = [(''Content-Type'', ''text/json'')],
                body = JSON_stringify (JObj
                  [(''message'', JStr ''Stopped satisfactory server''),
                   (''response'', JSON_stringify (JObj response))])\<rparr>\<rparr>
         | Rejected error \<Rightarrow>
             \<lparr>console = [attempt, ConsoleError [JSON_stringify error]],
              sent = [(client, command)],
              returned = \<lparr>statusCode = 200,
                headers = [(''Content-Type'', ''text/json'')],
                body = JSON_stringify (JObj
                  [(''message'', JStr ''Failed to stop satisfactory server''),
                   (''response'', JSON_stringify error)])\<rparr>\<rparr>)"

definition handler_reboot :: "js list \<Rightarrow> process_env \<Rightarrow> provider \<Rightarrow> invocation" where
  "handler_reboot args env send =
     (let instanceId = env ''INSTANCE_ID'';
          attempt = ConsoleLog [JStr ''Attempting to reboot game server'', env_value instanceId];
          client = \<lparr>region = env ''AWS_REGION''\<rparr>;
          command = RebootInstancesCommand [instanceId]
      in case send client command of
           Fulfilled response \<Rightarrow>
             \<lparr>console = [attempt, ConsoleLog [JSON_stringify (JObj response)]],
              sent = [(client, command)],
              returned = \<lparr>statusCode = 200,
                headers = [(''Content-Type'', ''text/json'')],
                body = JSON_stringify (JObj
                  [(''message'', JStr ''Rebooted satisfactory server''),
                   (''response'', JSON_stringify (JObj response))])\<rparr>\<rparr>
         | Rejected error \<Rightarrow>
             \<lparr>console = [attempt, ConsoleError [JSON_stringify error]],
              sent = [(client, command)],
              returned = \<lparr>statusCode = 200,
                headers = [(''Content-Type'', ''text/json'')],
                body = JSON_stringify (JObj
                  [(''message'', JStr ''Failed to reboot satisfactory server''),
                   (''response'', JSON_stringify error)])\<rparr>\<rparr>)"

text \<open>
  The stack names the three handlers by \<open>HandlerType\<close>: \<open>createLambda\<close> takes the entry
  file \<open>./server-hosting/lambda/${handler.toLowerCase()}.ts\<close> and grants the action
  \<open>ec2:${handler}Instances\<close>, the action of the command that file sends.
\<close>

datatype HandlerType = Start | Stop | Reboot

fun lambda_handler :: "HandlerType \<Rightarrow> js list \<Rightarrow> process_env \<Rightarrow> provider \<Rightarrow> invocation" where
  "lambda_handler Start = handler_start"
| "lambda_handler Stop = handler_stop"
| "lambda_handler Reboot = handler_reboot"

fun control_command :: "HandlerType \<Rightarrow> string option list \<Rightarrow> ec2_command" where
  "control_command Start = StartInstancesCommand"
| "control_command Stop = StopInstancesCommand"
| "control_command Reboot = RebootInstancesCommand"


subsection \<open>The handlers with every outcome of the client library\<close>

text \<open>
  The definitions above are the handlers where the client library constructs its
  objects, the call settles, and what it settles with can be serialised. The source
  protects less than that. The two constructors \<open>new EC2Client\<close> and
  \<open>new ...InstancesCommand\<close> run before the \<open>try\<close> statement, so whatever one of them
  throws leaves the handler. \<open>await client.send(command)\<close> waits for as long as the call
  does not settle. \<open>JSON.stringify\<close> throws a \<open>TypeError\<close> on a value that holds a
  \<open>BigInt\<close> or refers to itself: inside \<open>try\<close> this reaches the \<open>catch\<close> clause, inside
  the \<open>catch\<close> clause it leaves the handler.

  \<open>Unserializable\<close> stands for any value on which \<open>JSON.stringify\<close> throws. The
  \<open>TypeError\<close> it throws is an error object without enumerable properties of its own.
\<close>

datatype jsx = Plain js | Unserializable

definition TypeError :: js where
  "TypeError = JObj []"

datatype awaited = Resolves jsx | Rejects jsx | Pending

text \<open>The client library, as the handlers use it: what each constructor throws on its
  argument (\<open>None\<close> when it returns the object), and how \<open>send\<close> settles.\<close>

record aws_sdk =
  EC2Client_constructor :: "string option \<Rightarrow> jsx option"
  Command_constructor :: "ec2_command \<Rightarrow> jsx option"
  client_send :: "EC2Client \<Rightarrow> ec2_command \<Rightarrow> awaited"

datatype completion = Returns http_response | Throws jsx | NeverReturns

record execution =
  written :: "console_call list"
  issued :: "(EC2Client \<times> ec2_command) list"
  completion :: completion

text \<open>The body of the \<open>try\<close> statement after the call has resolved: the first
  \<open>JSON.stringify(response)\<close> either throws or gives the text that is logged and put into
  the body.\<close>

definition try_block :: "string \<Rightarrow> jsx \<Rightarrow> jsx + console_call list \<times> http_response" where
  "try_block succeeded response =
     (case response of
        Unserializable \<Rightarrow> Inl (Plain TypeError)
      | Plain r \<Rightarrow>
          Inr ([ConsoleLog [JSON_stringify r]],
               \<lparr>statusCode = 200,
                headers = [(''Content-Type'', ''text/json'')],
                body = JSON_stringify (JObj
                  [(''message'', JStr succeeded),
                   (''response'', JSON_stringify r)])\<rparr>))"

text \<open>The \<open>catch\<close> clause: \<open>console.error(JSON.stringify(error))\<close> comes first and is
  not protected.\<close>

definition catch_block :: "string \<Rightarrow> jsx \<Rightarrow> console_call list \<times> completion" where
  "catch_block failed error =
     (case error of
        Unserializable \<Rightarrow> ([], Throws (Plain TypeError))
      | Plain e \<Rightarrow>
          ([ConsoleError [JSON_stringify e]],
           Returns \<lparr>statusCode = 200,
                    headers = [(''Content-Type'', ''text/json'')],
                    body = JSON_stringify (JObj
                      [(''message'', JStr failed),
                       (''response'', JSON_stringify e)])\<rparr>))"

text \<open>The text the three files share; they differ in the line they log first, in the
  command class and in the two messages.\<close>

definition control_handler ::
  "string \<Rightarrow> (string option list \<Rightarrow> ec2_command) \<Rightarrow> string \<Rightarrow> string
     \<Rightarrow> js list \<Rightarrow> process_env \<Rightarrow> aws_sdk \<Rightarrow> execution" where
  "control_handler attempting Command succeeded failed args env sdk =
     (let instanceId = env ''INSTANCE_ID'';
          attempt = ConsoleLog [JStr attempting, env_value instanceId]
      in case EC2Client_constructor sdk (env ''AWS_REGION'') of
           Some thrown \<Rightarrow> \<lparr>written = [attempt], issued = [], completion = Throws thrown\<rparr>
         | None \<Rightarrow>
            (let client = \<lparr>region = env ''AWS_REGION''\<rparr>
             in case Command_constructor sdk (Command [instanceId]) of
                  Some thrown \<Rightarrow>
                    \<lparr>written = [attempt], issued = [], completion = Throws thrown\<rparr>
                | None \<Rightarrow>
                   (let command = Command [instanceId]
                    in case client_send sdk client command of
                         Pending \<Rightarrow>
                           \<lparr>written = [attempt], issued = [(client, command)],
                            completion = NeverReturns\<rparr>
                       | Rejects error \<Rightarrow>
                           \<lparr>written = attempt # fst (catch_block failed error),
                            issued = [(client, command)],
                            completion = snd (catch_block failed error)\<rparr>
                       | Resolves response \<Rightarrow>
                           (case try_block succeeded response of
                              Inr (logged, result) \<Rightarrow>
                                \<lparr>written = attempt # logged,
                                 issued = [(client, command)],
                                 completion = Returns result\<rparr>
                            | Inl error \<Rightarrow>
                                \<lparr>written = attempt # fst (catch_block failed error),
                                 issued = [(client, command)],
                                 completion = snd (catch_block failed error)\<rparr>))))"

definition start_execution :: "js list \<Rightarrow> process_env \<Rightarrow> aws_sdk \<Rightarrow> execution" where
  "start_execution =
     control_handler ''Attempting to start game server'' StartInstancesCommand
       ''Started satisfactory server'' ''Failed to start satisfactory server''"

definition stop_execution :: "js list \<Rightarrow> process_env \<Rightarrow> aws_sdk \<Rightarrow> execution" where
  "stop_execution =
     control_handler ''Attempting to stop game server'' StopInstancesCommand
       ''Stopped satisfactory server'' ''Failed to stop satisfactory server''"

definition reboot_execution :: "js list \<Rightarrow> process_env \<Rightarrow> aws_sdk \<Rightarrow> execution" where
  "reboot_execution =
     control_handler ''Attempting to reboot game server'' RebootInstancesCommand
       ''Rebooted satisfactory server'' ''Failed to reboot satisfactory server''"

fun lambda_execution :: "HandlerType \<Rightarrow> js list \<Rightarrow> process_env \<Rightarrow> aws_sdk \<Rightarrow> execution" where
  "lambda_execution Start = start_execution"
| "lambda_execution Stop = stop_execution"
| "lambda_execution Reboot = reboot_execution"


section \<open>The deployment stack\<close>

text \<open>
  \<open>Config\<close> is the object imported from \<open>./config\<close>; the stack reads these fields of
  it. The resolver functions declare their identifier parameters as \<open>string\<close> and test
  them for truthiness, so an identifier that is not set is the empty string. The
  control-API flag is tested with \<open>Config.restartApi && Config.restartApi === true\<close>;
  \<open>None\<close> is the flag left out of the object.
\<close>

record Config =
  prefix :: string
  account :: string
  vpcId :: string
  subnetId :: string
  availabilityZone :: string
  bucketName :: string
  useExperimentalBuild :: bool
  restartApi :: "bool option"

text \<open>
  A value known only at deployment (an instance id, the name of a bucket the provider
  names, the location of an uploaded asset) is a token inside an ordinary string at
  synthesis time; the token names the construct and the attribute it stands for.
\<close>

definition token :: "string \<Rightarrow> string \<Rightarrow> string" where
  "token construct attribute = ''${Token['' @ construct @ ''.'' @ attribute @ '']}''"

text \<open>The handles the constructor passes around.\<close>

datatype VpcLookupOptions = VpcLookupOptions (opt_vpcId: "string option") (opt_isDefault: "bool option")

datatype IVpc = IVpc (vpc_construct: string) (vpc_lookup: VpcLookupOptions)

datatype ISubnet = ISubnet (subnet_construct: string) (subnet_az: string) (subnet_id: string)

datatype SubnetType = PRIVATE_ISOLATED | PRIVATE_WITH_EGRESS | PUBLIC

datatype SubnetSelection =
  SubnetSelection (subnets: "ISubnet list option") (subnetType: "SubnetType option")

datatype Peer = anyIpv4 | anyIpv6 | ipv4 string

datatype Port = tcp nat | udp nat

datatype Role = RoleOf string

datatype IBucket = IBucket (bucket_construct: string) (bucket_name: string)

text \<open>The properties of the instance, in the order of the source: instance type,
  machine image parameter, block devices (device name, size in GiB), subnet selection,
  \<open>userDataCausesReplacement\<close>, network, security group.\<close>

datatype InstanceProps =
  InstanceProps string string "(string \<times> nat) list" SubnetSelection bool IVpc string

text \<open>The properties of a function: entry, description, timeout in seconds,
  environment, runtime.\<close>

datatype NodejsFunctionProps =
  NodejsFunctionProps (fn_entry: string) (fn_description: string) (fn_timeout: nat)
    (fn_environment: "(string \<times> string) list") (fn_runtime: string)

datatype PolicyStatement =
  PolicyStatement (actions: "string list") (resources: "string list")

text \<open>
  The stack under construction is the sequence of calls the constructor has made on the
  construct library, each with the construct it creates or changes. \<open>this\<close> is threaded
  through the constructor as the state.
\<close>

datatype cdk_call =
    Vpc_fromLookup string VpcLookupOptions
  | Subnet_fromSubnetAttributes string string string
  | new_SecurityGroup string IVpc string
  | addIngressRule string Peer Port string
  | new_Instance string InstanceProps
  | addManagedPolicy Role string
  | Bucket_fromBucketName string string
  | new_Bucket string
  | grantReadWrite IBucket Role
  | addCommands string string
  | new_Asset string string
  | grantRead string Role
  | addS3DownloadCommand string IBucket string
  | addExecuteFileCommand string string string
  | new_RestApi string
  | new_NodejsFunction string NodejsFunctionProps
  | addToRolePolicy string PolicyStatement
  | addResource string string
  | addMethod string string string string

type_synonym Stack = "cdk_call list"

text \<open>\<open>String.prototype.toLowerCase\<close> on ASCII text, and a boolean inside a template
  literal.\<close>

definition toLowerCase :: "string \<Rightarrow> string" where
  "toLowerCase s =
     map (\<lambda>c. if 65 \<le> (of_char c :: nat) \<and> (of_char c :: nat) \<le> 90
              then char_of (of_char c + (32 :: nat)) else c) s"

definition boolean_string :: "bool \<Rightarrow> string" where
  "boolean_string b = (if b then ''true'' else ''false'')"

fun HandlerType_string :: "HandlerType \<Rightarrow> string" where
  "HandlerType_string Start = ''Start''"
| "HandlerType_string Stop = ''Stop''"
| "HandlerType_string Reboot = ''Reboot''"

definition createLambda :: "Config \<Rightarrow> Stack \<Rightarrow> string \<Rightarrow> string \<Rightarrow> HandlerType \<Rightarrow> Stack" where
  "createLambda cfg stack restApi instanceId handler =
     (let h = HandlerType_string handler;
          lambda = Config.prefix cfg @ h @ ''ServerLambda'';
          stack1 = stack @ [new_NodejsFunction lambda
            (NodejsFunctionProps
               (''./server-hosting/lambda/'' @ toLowerCase h @ ''.ts'')
               (h @ '' game server'')
               10
               [(''INSTANCE_ID'', instanceId)]
               ''NODEJS_20_X'')];
          stack2 = stack1 @ [addToRolePolicy lambda
            (PolicyStatement
               [''ec2:'' @ h @ ''Instances'']
               [''arn:aws:ec2:*:'' @ Config.account cfg @ '':instance/'' @ instanceId])];
          resource = ''/'' @ toLowerCase h;
          stack3 = stack2 @ [addResource restApi (toLowerCase h)]
      in stack3 @ [addMethod restApi resource ''GET'' lambda])"

definition lookUpOrDefaultVpc :: "string \<Rightarrow> Stack \<Rightarrow> string \<Rightarrow> IVpc \<times> Stack" where
  "lookUpOrDefaultVpc = (\<lambda>prefix this vpcId.
     if vpcId \<noteq> [] then
       (IVpc (prefix @ ''Vpc'') (VpcLookupOptions (Some vpcId) None),
        this @ [Vpc_fromLookup (prefix @ ''Vpc'') (VpcLookupOptions (Some vpcId) None)])
     else
       (IVpc (prefix @ ''Vpc'') (VpcLookupOptions None (Some True)),
        this @ [Vpc_fromLookup (prefix @ ''Vpc'') (VpcLookupOptions None (Some True))]))"

definition publicOrLookupSubnet ::
  "Config \<Rightarrow> Stack \<Rightarrow> string \<Rightarrow> string \<Rightarrow> SubnetSelection \<times> Stack" where
  "publicOrLookupSubnet = (\<lambda>cfg this subnetId availabilityZone.
     if subnetId \<noteq> [] \<and> availabilityZone \<noteq> [] then
       (SubnetSelection
          (Some [ISubnet (Config.prefix cfg @ ''ServerSubnet'') availabilityZone subnetId])
          None,
        this @ [Subnet_fromSubnetAttributes (Config.prefix cfg @ ''ServerSubnet'')
                  availabilityZone subnetId])
     else
       (SubnetSelection None (Some PUBLIC), this))"

definition findOrCreateBucket :: "string \<Rightarrow> Stack \<Rightarrow> string \<Rightarrow> IBucket \<times> Stack" where
  "findOrCreateBucket = (\<lambda>prefix this bucketName.
     if bucketName \<noteq> [] then
       (IBucket (prefix @ ''SavesBucket'') bucketName,
        this @ [Bucket_fromBucketName (prefix @ ''SavesBucket'') bucketName])
     else
       (IBucket (prefix @ ''SavesBucket'') (token (prefix @ ''SavesBucket'') ''bucketName''),
        this @ [new_Bucket (prefix @ ''SavesBucket'')]))"

text \<open>
  The constructor. Its arguments \<open>scope\<close>, \<open>id\<close> and \<open>props\<close> go to the base class and
  are not read again; everything else comes from \<open>Config\<close>. \<open>addS3DownloadCommand\<close> is
  given no local file, so the path it returns is \<open>/tmp/\<close> followed by the bucket key.
\<close>

definition ServerHostingStack :: "Config \<Rightarrow> Stack" where
  "ServerHostingStack cfg =
     (let prefix = Config.prefix cfg;
          this = [];
          (vpc, this) = lookUpOrDefaultVpc prefix this (Config.vpcId cfg);
          (vpcSubnets, this) =
             publicOrLookupSubnet cfg this (Config.subnetId cfg) (Config.availabilityZone cfg);
          securityGroup = prefix @ ''ServerSecurityGroup'';
          this = this @ [new_SecurityGroup securityGroup vpc
                           ''Allow Satisfactory client to connect to server''];
          this = this @ [addIngressRule securityGroup anyIpv4 (udp 7777) ''Game port''];
          this = this @ [addIngressRule securityGroup anyIpv4 (udp 15000) ''Beacon port''];
          this = this @ [addIngressRule securityGroup anyIpv4 (udp 15777) ''Query port''];
          server = prefix @ ''Server'';
          this = this @ [new_Instance server
            (InstanceProps ''m5a.xlarge''
               ''/aws/service/canonical/ubuntu/server/20.04/stable/current/amd64/hvm/ebs-gp2/ami-id''
               [(''/dev/sda1'', 30)] vpcSubnets True vpc securityGroup)];
          this = this @ [addManagedPolicy (RoleOf server) ''AmazonSSMManagedInstanceCore''];
          (savesBucket, this) = findOrCreateBucket prefix this (Config.bucketName cfg);
          this = this @ [grantReadWrite savesBucket (RoleOf server)];
          this = this @ [addCommands server ''sudo apt-get install unzip -y''];
          this = this @ [addCommands server
            ''curl \"https://awscli.amazonaws.com/awscli-exe-linux-x86_64.zip\" -o \"awscliv2.zip\" && unzip awscliv2.zip && ./aws/install''];
          startupScript = Config.prefix cfg @ ''InstallAsset'';
          this = this @ [new_Asset startupScript ''./server-hosting/scripts/install.sh''];
          this = this @ [grantRead startupScript (RoleOf server)];
          localPath = ''/tmp/'' @ token startupScript ''s3ObjectKey'';
          this = this @ [addS3DownloadCommand server
            (IBucket startupScript (token startupScript ''s3BucketName''))
            (token startupScript ''s3ObjectKey'')];
          this = this @ [addExecuteFileCommand server localPath
            (bucket_name savesBucket @ '' '' @ boolean_string (Config.useExperimentalBuild cfg))]
      in if (case Config.restartApi cfg of None \<Rightarrow> False | Some b \<Rightarrow> b)
            \<and> Config.restartApi cfg = Some True
         then
           (let restApi = prefix @ ''ServerApi'';
                this = this @ [new_RestApi restApi];
                this = createLambda cfg this restApi (token server ''instanceId'') Start;
                this = createLambda cfg this restApi (token server ''instanceId'') Stop;
                this = createLambda cfg this restApi (token server ''instanceId'') Reboot
            in this)
         else this)"

text \<open>What a finished stack holds: the network lookups, the subnets imported by
  attributes, the ingress rules, the buckets imported and created, the grants of bucket
  access, the bootstrap commands, the HTTP endpoints and the permissions of the
  functions behind them.\<close>

fun vpc_lookups :: "Stack \<Rightarrow> (string \<times> VpcLookupOptions) list" where
  "vpc_lookups [] = []"
| "vpc_lookups (Vpc_fromLookup i opts # cs) = (i, opts) # vpc_lookups cs"
| "vpc_lookups (c # cs) = vpc_lookups cs"

fun subnet_imports :: "Stack \<Rightarrow> ISubnet list" where
  "subnet_imports [] = []"
| "subnet_imports (Subnet_fromSubnetAttributes i az sn # cs) = ISubnet i az sn # subnet_imports cs"
| "subnet_imports (c # cs) = subnet_imports cs"

fun ingress_rules :: "Stack \<Rightarrow> (string \<times> Peer \<times> Port) list" where
  "ingress_rules [] = []"
| "ingress_rules (addIngressRule sg peer port d # cs) = (sg, peer, port) # ingress_rules cs"
| "ingress_rules (c # cs) = ingress_rules cs"

fun security_groups :: "Stack \<Rightarrow> string list" where
  "security_groups [] = []"
| "security_groups (new_SecurityGroup sg v d # cs) = sg # security_groups cs"
| "security_groups (c # cs) = security_groups cs"

fun bucket_imports :: "Stack \<Rightarrow> IBucket list" where
  "bucket_imports [] = []"
| "bucket_imports (Bucket_fromBucketName i n # cs) = IBucket i n # bucket_imports cs"
| "bucket_imports (c # cs) = bucket_imports cs"

fun buckets_created :: "Stack \<Rightarrow> string list" where
  "buckets_created [] = []"
| "buckets_created (new_Bucket i # cs) = i # buckets_created cs"
| "buckets_created (c # cs) = buckets_created cs"

fun read_write_grants :: "Stack \<Rightarrow> (IBucket \<times> Role) list" where
  "read_write_grants [] = []"
| "read_write_grants (grantReadWrite b r # cs) = (b, r) # read_write_grants cs"
| "read_write_grants (c # cs) = read_write_grants cs"

fun user_data :: "Stack \<Rightarrow> cdk_call list" where
  "user_data [] = []"
| "user_data (addCommands i c # cs) = addCommands i c # user_data cs"
| "user_data (addS3DownloadCommand i b k # cs) = addS3DownloadCommand i b k # user_data cs"
| "user_data (addExecuteFileCommand i f a # cs) = addExecuteFileCommand i f a # user_data cs"
| "user_data (c # cs) = user_data cs"

fun rest_apis :: "Stack \<Rightarrow> string list" where
  "rest_apis [] = []"
| "rest_apis (new_RestApi i # cs) = i # rest_apis cs"
| "rest_apis (c # cs) = rest_apis cs"

fun endpoints :: "Stack \<Rightarrow> (string \<times> string \<times> string) list" where
  "endpoints [] = []"
| "endpoints (addMethod api path method lambda # cs) = (method, path, lambda) # endpoints cs"
| "endpoints (c # cs) = endpoints cs"

fun api_resources :: "Stack \<Rightarrow> string list" where
  "api_resources [] = []"
| "api_resources (addResource api part # cs) = part # api_resources cs"
| "api_resources (c # cs) = api_resources cs"

fun functions_created :: "Stack \<Rightarrow> (string \<times> NodejsFunctionProps) list" where
  "functions_created [] = []"
| "functions_created (new_NodejsFunction i props # cs) = (i, props) # functions_created cs"
| "functions_created (c # cs) = functions_created cs"

fun function_grants :: "Stack \<Rightarrow> (string \<times> PolicyStatement) list" where
  "function_grants [] = []"
| "function_grants (addToRolePolicy lambda stmt # cs) = (lambda, stmt) # function_grants cs"
| "function_grants (c # cs) = function_grants cs"



section \<open>Properties of the handlers\<close>

lemma digits_nonempty: "digits n \<noteq> []"
  by (subst digits.simps) simp

lemma serialize_defined:
  "v \<noteq> JUndefined \<Longrightarrow> \<exists>s. serialize v = Some s \<and> s \<noteq> []"
  by (cases v) (simp_all add: number_to_string_def digits_nonempty quote_def)

lemma quote_plain:
  "quote ''Started satisfactory server'' = ''\"Started satisfactory server\"''"
  "quote ''Stopped satisfactory server'' = ''\"Stopped satisfactory server\"''"
  "quote ''Rebooted satisfactory server'' = ''\"Rebooted satisfactory server\"''"
  "quote ''Failed to start satisfactory server'' = ''\"Failed to start satisfactory server\"''"
  "quote ''Failed to stop satisfactory server'' = ''\"Failed to stop satisfactory server\"''"
  "quote ''Failed to reboot satisfactory server'' = ''\"Failed to reboot satisfactory server\"''"
  "quote ''message'' = ''\"message\"''"
  "quote ''response'' = ''\"response\"''"
  by (simp_all add: quote_def escape_char_def)

lemmas handler_defs = handler_start_def handler_stop_def handler_reboot_def Let_def

lemma handler_rejected:
  assumes "send \<lparr>region = env ''AWS_REGION''\<rparr> (control_command h [env ''INSTANCE_ID''])
             = Rejected error"
    and "serialize error = Some s"
  shows "returned (lambda_handler h args env send) =
      \<lparr>statusCode = 200, headers = [(''Content-Type'', ''text/json'')],
       body = JStr (''{\"message\":\"'' @
         (case h of Start \<Rightarrow> ''Failed to start satisfactory server''
          | Stop \<Rightarrow> ''Failed to stop satisfactory server''
          | Reboot \<Rightarrow> ''Failed to reboot satisfactory server'')
         @ ''\",\"response\":'' @ quote s @ ''}'')\<rparr>"
  using assms
  by (cases h) (simp_all add: handler_defs JSON_stringify_def quote_plain)

lemma handler_fulfilled:
  assumes "send \<lparr>region = env ''AWS_REGION''\<rparr> (control_command h [env ''INSTANCE_ID''])
             = Fulfilled ack"
  shows "returned (lambda_handler h args env send) =
      \<lparr>statusCode = 200, headers = [(''Content-Type'', ''text/json'')],
       body = JStr (''{\"message\":\"'' @
         (case h of Start \<Rightarrow> ''Started satisfactory server''
          | Stop \<Rightarrow> ''Stopped satisfactory server''
          | Reboot \<Rightarrow> ''Rebooted satisfactory server'')
         @ ''\",\"response\":''
         @ quote (''{'' @ join '','' (serialize_members ack) @ ''}'') @ ''}'')\<rparr>"
  using assms
  by (cases h) (simp_all add: handler_defs JSON_stringify_def quote_plain)

lemma handler_sent:
  "sent (lambda_handler h args env send) =
     [(\<lparr>region = env ''AWS_REGION''\<rparr>, control_command h [env ''INSTANCE_ID''])]"
  by (cases h) (simp_all add: handler_defs split: settled.split)

lemma handler_ignores_args:
  "lambda_handler h args1 env send = lambda_handler h args2 env send"
  by (cases h) (simp_all add: handler_defs)

lemma handler_provider_outcome:
  assumes "send1 \<lparr>region = env ''AWS_REGION''\<rparr> (control_command h [env ''INSTANCE_ID''])
         = send2 \<lparr>region = env ''AWS_REGION''\<rparr> (control_command h [env ''INSTANCE_ID''])"
  shows "lambda_handler h args env send1 = lambda_handler h args env send2"
  using assms by (cases h) (simp_all add: handler_defs)

text \<open>
  Claim C1. For each of the three handlers: when the call the handler sends is rejected
  with an error value, the handler returns status 200, and the body is the JSON text of
  an object whose \<open>message\<close> is "Failed to start satisfactory server", "Failed to stop
  satisfactory server" or "Failed to reboot satisfactory server" for its verb, and whose
  \<open>response\<close> is the string \<open>JSON.stringify\<close> gives for the error, which is not empty.
  The rejection value is any JavaScript value other than \<open>undefined\<close>, for which
  \<open>JSON.stringify\<close> has no string.
\<close>

theorem failure_response:
  assumes "send \<lparr>region = env ''AWS_REGION''\<rparr> (control_command h [env ''INSTANCE_ID''])
             = Rejected error"
    and "error \<noteq> JUndefined"
  shows "\<exists>s. serialize error = Some s \<and> s \<noteq> [] \<and>
     returned (lambda_handler h args env send) =
      \<lparr>statusCode = 200, headers = [(''Content-Type'', ''text/json'')],
       body = JStr (''{\"message\":\"'' @
         (case h of Start \<Rightarrow> ''Failed to start satisfactory server''
          | Stop \<Rightarrow> ''Failed to stop satisfactory server''
          | Reboot \<Rightarrow> ''Failed to reboot satisfactory server'')
         @ ''\",\"response\":'' @ quote s @ ''}'')\<rparr>"
proof -
  from assms(2) obtain s where s: "serialize error = Some s" "s \<noteq> []"
    using serialize_defined by blast
  from assms(1) s(1) have "returned (lambda_handler h args env send) =
      \<lparr>statusCode = 200, headers = [(''Content-Type'', ''text/json'')],
       body = JStr (''{\"message\":\"'' @
         (case h of Start \<Rightarrow> ''Failed to start satisfactory server''
          | Stop \<Rightarrow> ''Failed to stop satisfactory server''
          | Reboot \<Rightarrow> ''Failed to reboot satisfactory server'')
         @ ''\",\"response\":'' @ quote s @ ''}'')\<rparr>"
    by (rule handler_rejected)
  with s show ?thesis by blast
qed

theorem failure_response_witness:
  "(\<lambda>c cmd. Rejected (JObj [(''name'', JStr ''IncorrectInstanceState''),
                             (''$fault'', JStr ''client'')]))
      \<lparr>region = [''INSTANCE_ID'' \<mapsto> ''i-0abc''] ''AWS_REGION''\<rparr>
      (control_command Stop [[''INSTANCE_ID'' \<mapsto> ''i-0abc''] ''INSTANCE_ID''])
     = Rejected (JObj [(''name'', JStr ''IncorrectInstanceState''), (''$fault'', JStr ''client'')])
   \<and> JObj [(''name'', JStr ''IncorrectInstanceState''), (''$fault'', JStr ''client'')]
       \<noteq> JUndefined
   \<and> returned (lambda_handler Stop [] [''INSTANCE_ID'' \<mapsto> ''i-0abc'']
        (\<lambda>c cmd. Rejected (JObj [(''name'', JStr ''IncorrectInstanceState''),
                                  (''$fault'', JStr ''client'')]))) =
      \<lparr>statusCode = 200, headers = [(''Content-Type'', ''text/json'')],
       body = JStr (''{\"message\":\"Failed to stop satisfactory server\",\"response\":''
          @ quote ''{\"name\":\"IncorrectInstanceState\",\"$fault\":\"client\"}'' @ ''}'')\<rparr>"
  using failure_response
    [of "\<lambda>c cmd. Rejected (JObj [(''name'', JStr ''IncorrectInstanceState''),
                                   (''$fault'', JStr ''client'')])"
      "[''INSTANCE_ID'' \<mapsto> ''i-0abc'']" Stop
      "JObj [(''name'', JStr ''IncorrectInstanceState''), (''$fault'', JStr ''client'')]" "[]"]
  by (simp add: quote_def escape_char_def)

text \<open>
  Claim C2. For each of the three handlers: when the call the handler sends is
  fulfilled, the handler returns status 200, and the body is the JSON text of an object
  whose \<open>message\<close> is "Started satisfactory server", "Stopped satisfactory server" or
  "Rebooted satisfactory server" for its verb, and whose \<open>response\<close> is the string
  \<open>JSON.stringify\<close> gives for the output object of the call.
\<close>

theorem success_response:
  assumes "send \<lparr>region = env ''AWS_REGION''\<rparr> (control_command h [env ''INSTANCE_ID''])
             = Fulfilled ack"
  shows "\<exists>s. serialize (JObj ack) = Some s \<and>
     returned (lambda_handler h args env send) =
      \<lparr>statusCode = 200, headers = [(''Content-Type'', ''text/json'')],
       body = JStr (''{\"message\":\"'' @
         (case h of Start \<Rightarrow> ''Started satisfactory server''
          | Stop \<Rightarrow> ''Stopped satisfactory server''
          | Reboot \<Rightarrow> ''Rebooted satisfactory server'')
         @ ''\",\"response\":'' @ quote s @ ''}'')\<rparr>"
  using assms handler_fulfilled [of send env h ack args] by simp

theorem success_response_witness:
  "(\<lambda>c cmd. Fulfilled [(''$metadata'', JObj [(''httpStatusCode'', JNum 200)])])
      \<lparr>region = [''INSTANCE_ID'' \<mapsto> ''i-0abc''] ''AWS_REGION''\<rparr>
      (control_command Reboot [[''INSTANCE_ID'' \<mapsto> ''i-0abc''] ''INSTANCE_ID''])
     = Fulfilled [(''$metadata'', JObj [(''httpStatusCode'', JNum 200)])]
   \<and> returned (lambda_handler Reboot [] [''INSTANCE_ID'' \<mapsto> ''i-0abc'']
        (\<lambda>c cmd. Fulfilled [(''$metadata'', JObj [(''httpStatusCode'', JNum 200)])])) =
      \<lparr>statusCode = 200, headers = [(''Content-Type'', ''text/json'')],
       body = JStr (''{\"message\":\"Rebooted satisfactory server\",\"response\":''
          @ quote ''{\"$metadata\":{\"httpStatusCode\":200}}'' @ ''}'')\<rparr>"
  using success_response
    [of "\<lambda>c cmd. Fulfilled [(''$metadata'', JObj [(''httpStatusCode'', JNum 200)])]"
      "[''INSTANCE_ID'' \<mapsto> ''i-0abc'']" Reboot
      "[(''$metadata'', JObj [(''httpStatusCode'', JNum 200)])]" "[]"]
  by (simp add: quote_def escape_char_def number_to_string_def hex_digit_def)

text \<open>
  Claim C9. For each of the three handlers: two invocations in the same environment,
  against providers that settle the call the handler sends in the same way, with any
  arguments from the runtime (any request event, with any body and any query
  parameters), write the same console lines, send the same command and return the same
  response.
\<close>

theorem response_independent_of_request:
  assumes "send1 \<lparr>region = env ''AWS_REGION''\<rparr> (control_command h [env ''INSTANCE_ID''])
         = send2 \<lparr>region = env ''AWS_REGION''\<rparr> (control_command h [env ''INSTANCE_ID''])"
  shows "lambda_handler h args1 env send1 = lambda_handler h args2 env send2"
  using assms handler_provider_outcome [of send1 env h send2 args1]
    handler_ignores_args [of h args1 env send2 args2]
  by simp

theorem response_independent_of_request_witness:
  "(\<lambda>c cmd. Fulfilled [])
      \<lparr>region = [''INSTANCE_ID'' \<mapsto> ''i-0abc''] ''AWS_REGION''\<rparr>
      (control_command Start [[''INSTANCE_ID'' \<mapsto> ''i-0abc''] ''INSTANCE_ID''])
    = (\<lambda>c cmd. case cmd of StartInstancesCommand ids \<Rightarrow> Fulfilled [] | _ \<Rightarrow> Rejected JNull)
      \<lparr>region = [''INSTANCE_ID'' \<mapsto> ''i-0abc''] ''AWS_REGION''\<rparr>
      (control_command Start [[''INSTANCE_ID'' \<mapsto> ''i-0abc''] ''INSTANCE_ID''])
   \<and> lambda_handler Start
        [JObj [(''queryStringParameters'', JObj [(''instance'', JStr ''i-0other'')]),
               (''body'', JStr ''stop'')]]
        [''INSTANCE_ID'' \<mapsto> ''i-0abc''] (\<lambda>c cmd. Fulfilled [])
     = lambda_handler Start [] [''INSTANCE_ID'' \<mapsto> ''i-0abc'']
        (\<lambda>c cmd. case cmd of StartInstancesCommand ids \<Rightarrow> Fulfilled [] | _ \<Rightarrow> Rejected JNull)"
  using response_independent_of_request
    [of "\<lambda>c cmd. Fulfilled []" "[''INSTANCE_ID'' \<mapsto> ''i-0abc'']" Start
      "\<lambda>c cmd. case cmd of StartInstancesCommand ids \<Rightarrow> Fulfilled [] | _ \<Rightarrow> Rejected JNull"
      "[JObj [(''queryStringParameters'', JObj [(''instance'', JStr ''i-0other'')]),
              (''body'', JStr ''stop'')]]" "[]"]
  by simp

lemmas execution_defs = start_execution_def stop_execution_def reboot_execution_def
  control_handler_def try_block_def catch_block_def Let_def

lemma quote_empty_object: "quote ''{}'' = ''\"{}\"''"
  by (simp add: quote_def escape_char_def)

lemma execution_issued:
  assumes "EC2Client_constructor sdk (env ''AWS_REGION'') = None"
    and "Command_constructor sdk (control_command h [env ''INSTANCE_ID'']) = None"
  shows "issued (lambda_execution h args env sdk) =
     [(\<lparr>region = env ''AWS_REGION''\<rparr>, control_command h [env ''INSTANCE_ID''])]"
  using assms
  by (cases h)
     (simp_all add: execution_defs split: awaited.split jsx.split sum.split prod.split)

lemma execution_resolved:
  assumes "EC2Client_constructor sdk (env ''AWS_REGION'') = None"
    and "Command_constructor sdk (control_command h [env ''INSTANCE_ID'']) = None"
    and "client_send sdk \<lparr>region = env ''AWS_REGION''\<rparr>
           (control_command h [env ''INSTANCE_ID'']) = Resolves (Plain r)"
  shows "completion (lambda_execution h args env sdk) =
     Returns \<lparr>statusCode = 200, headers = [(''Content-Type'', ''text/json'')],
       body = JStr (''{\"message\":\"'' @
         (case h of Start \<Rightarrow> ''Started satisfactory server''
          | Stop \<Rightarrow> ''Stopped satisfactory server''
          | Reboot \<Rightarrow> ''Rebooted satisfactory server'')
         @ ''\"'' @
         (case serialize r of None \<Rightarrow> [] | Some s \<Rightarrow> '',\"response\":'' @ quote s)
         @ ''}'')\<rparr>"
  using assms
  by (cases h)
     (simp_all add: execution_defs JSON_stringify_def quote_plain split: option.split)

lemma execution_resolved_unserializable:
  assumes "EC2Client_constructor sdk (env ''AWS_REGION'') = None"
    and "Command_constructor sdk (control_command h [env ''INSTANCE_ID'']) = None"
    and "client_send sdk \<lparr>region = env ''AWS_REGION''\<rparr>
           (control_command h [env ''INSTANCE_ID'']) = Resolves Unserializable"
  shows "completion (lambda_execution h args env sdk) =
     Returns \<lparr>statusCode = 200, headers = [(''Content-Type'', ''text/json'')],
       body = JStr (''{\"message\":\"'' @
         (case h of Start \<Rightarrow> ''Failed to start satisfactory server''
          | Stop \<Rightarrow> ''Failed to stop satisfactory server''
          | Reboot \<Rightarrow> ''Failed to reboot satisfactory server'')
         @ ''\",\"response\":\"{}\"}'')\<rparr>"
  using assms
  by (cases h)
     (simp_all add: execution_defs TypeError_def JSON_stringify_def quote_plain
        quote_empty_object)

lemma execution_rejected:
  assumes "EC2Client_constructor sdk (env ''AWS_REGION'') = None"
    and "Command_constructor sdk (control_command h [env ''INSTANCE_ID'']) = None"
    and "client_send sdk \<lparr>region = env ''AWS_REGION''\<rparr>
           (control_command h [env ''INSTANCE_ID'']) = Rejects (Plain e)"
  shows "completion (lambda_execution h args env sdk) =
     Returns \<lparr>statusCode = 200, headers = [(''Content-Type'', ''text/json'')],
       body = JStr (''{\"message\":\"'' @
         (case h of Start \<Rightarrow> ''Failed to start satisfactory server''
          | Stop \<Rightarrow> ''Failed to stop satisfactory server''
          | Reboot \<Rightarrow> ''Failed to reboot satisfactory server'')
         @ ''\"'' @
         (case serialize e of None \<Rightarrow> [] | Some s \<Rightarrow> '',\"response\":'' @ quote s)
         @ ''}'')\<rparr>"
  using assms
  by (cases h)
     (simp_all add: execution_defs JSON_stringify_def quote_plain split: option.split)

text \<open>The handlers of the first part are these handlers where the library constructs
  its objects and the call settles with plain data.\<close>

lemma execution_plain_fulfilled:
  assumes "EC2Client_constructor sdk (env ''AWS_REGION'') = None"
    and "Command_constructor sdk (control_command h [env ''INSTANCE_ID'']) = None"
    and "client_send sdk \<lparr>region = env ''AWS_REGION''\<rparr>
           (control_command h [env ''INSTANCE_ID'']) = Resolves (Plain (JObj ack))"
  shows "lambda_execution h args env sdk =
     \<lparr>written = console (lambda_handler h args env (\<lambda>c cmd. Fulfilled ack)),
      issued = sent (lambda_handler h args env (\<lambda>c cmd. Fulfilled ack)),
      completion = Returns (returned (lambda_handler h args env (\<lambda>c cmd. Fulfilled ack)))\<rparr>"
  using assms by (cases h) (simp_all add: execution_defs handler_defs)

lemma execution_plain_rejected:
  assumes "EC2Client_constructor sdk (env ''AWS_REGION'') = None"
    and "Command_constructor sdk (control_command h [env ''INSTANCE_ID'']) = None"
    and "client_send sdk \<lparr>region = env ''AWS_REGION''\<rparr>
           (control_command h [env ''INSTANCE_ID'']) = Rejects (Plain e)"
  shows "lambda_execution h args env sdk =
     \<lparr>written = console (lambda_handler h args env (\<lambda>c cmd. Rejected e)),
      issued = sent (lambda_handler h args env (\<lambda>c cmd. Rejected e)),
      completion = Returns (returned (lambda_handler h args env (\<lambda>c cmd. Rejected e)))\<rparr>"
  using assms by (cases h) (simp_all add: execution_defs handler_defs)

text \<open>
  Claim C10, as the code has it. In every environment (also one where \<open>INSTANCE_ID\<close> is
  unset or empty) a handler checks nothing: once the library has constructed the client
  and the command, the handler sends exactly one command, the control command of its
  verb, holding the value of \<open>INSTANCE_ID\<close> as read. Whenever that call resolves, or is
  rejected with a value that \<open>JSON.stringify\<close> can serialise, the handler returns status
  200 with the \<open>Content-Type\<close> header and a body from one of its two branches: the
  success message with the serialised output; the failure message with the serialised
  rejection value; the failure message with \<open>{}\<close> when the output itself cannot be
  serialised. The \<open>response\<close> field is left out where the value is \<open>undefined\<close>.
\<close>

theorem handler_settles:
  assumes "EC2Client_constructor sdk (env ''AWS_REGION'') = None"
    and "Command_constructor sdk (control_command h [env ''INSTANCE_ID'']) = None"
  shows "issued (lambda_execution h args env sdk) =
       [(\<lparr>region = env ''AWS_REGION''\<rparr>, control_command h [env ''INSTANCE_ID''])]
   \<and> (\<forall>r. client_send sdk \<lparr>region = env ''AWS_REGION''\<rparr>
           (control_command h [env ''INSTANCE_ID'']) = Resolves (Plain r) \<longrightarrow>
        completion (lambda_execution h args env sdk) =
          Returns \<lparr>statusCode = 200, headers = [(''Content-Type'', ''text/json'')],
            body = JStr (''{\"message\":\"'' @
              (case h of Start \<Rightarrow> ''Started satisfactory server''
               | Stop \<Rightarrow> ''Stopped satisfactory server''
               | Reboot \<Rightarrow> ''Rebooted satisfactory server'')
              @ ''\"'' @
              (case serialize r of None \<Rightarrow> [] | Some s \<Rightarrow> '',\"response\":'' @ quote s)
              @ ''}'')\<rparr>)
   \<and> (client_send sdk \<lparr>region = env ''AWS_REGION''\<rparr>
           (control_command h [env ''INSTANCE_ID'']) = Resolves Unserializable \<longrightarrow>
        completion (lambda_execution h args env sdk) =
          Returns \<lparr>statusCode = 200, headers = [(''Content-Type'', ''text/json'')],
            body = JStr (''{\"message\":\"'' @
              (case h of Start \<Rightarrow> ''Failed to start satisfactory server''
               | Stop \<Rightarrow> ''Failed to stop satisfactory server''
               | Reboot \<Rightarrow> ''Failed to reboot satisfactory server'')
              @ ''\",\"response\":\"{}\"}'')\<rparr>)
   \<and> (\<forall>e. client_send sdk \<lparr>region = env ''AWS_REGION''\<rparr>
           (control_command h [env ''INSTANCE_ID'']) = Rejects (Plain e) \<longrightarrow>
        completion (lambda_execution h args env sdk) =
          Returns \<lparr>statusCode = 200, headers = [(''Content-Type'', ''text/json'')],
            body = JStr (''{\"message\":\"'' @
              (case h of Start \<Rightarrow> ''Failed to start satisfactory server''
               | Stop \<Rightarrow> ''Failed to stop satisfactory server''
               | Reboot \<Rightarrow> ''Failed to reboot satisfactory server'')
              @ ''\"'' @
              (case serialize e of None \<Rightarrow> [] | Some s \<Rightarrow> '',\"response\":'' @ quote s)
              @ ''}'')\<rparr>)"
  using assms execution_issued [of sdk env h args] execution_resolved [of sdk env h _ args]
    execution_resolved_unserializable [of sdk env h args] execution_rejected [of sdk env h _ args]
  by blast

theorem handler_settles_witness:
  "EC2Client_constructor
      \<lparr>EC2Client_constructor = \<lambda>r. None, Command_constructor = \<lambda>c. None,
       client_send = \<lambda>c cmd. Rejects (Plain (JObj [(''Code'', JStr ''MissingParameter'')]))\<rparr>
      (Map.empty ''AWS_REGION'') = None
   \<and> Command_constructor
      \<lparr>EC2Client_constructor = \<lambda>r. None, Command_constructor = \<lambda>c. None,
       client_send = \<lambda>c cmd. Rejects (Plain (JObj [(''Code'', JStr ''MissingParameter'')]))\<rparr>
      (control_command Reboot [Map.empty ''INSTANCE_ID'']) = None
   \<and> issued (lambda_execution Reboot [] Map.empty
      \<lparr>EC2Client_constructor = \<lambda>r. None, Command_constructor = \<lambda>c. None,
       client_send = \<lambda>c cmd. Rejects (Plain (JObj [(''Code'', JStr ''MissingParameter'')]))\<rparr>)
     = [(\<lparr>region = None\<rparr>, RebootInstancesCommand [None])]
   \<and> completion (lambda_execution Reboot [] Map.empty
      \<lparr>EC2Client_constructor = \<lambda>r. None, Command_constructor = \<lambda>c. None,
       client_send = \<lambda>c cmd. Rejects (Plain (JObj [(''Code'', JStr ''MissingParameter'')]))\<rparr>)
     = Returns \<lparr>statusCode = 200, headers = [(''Content-Type'', ''text/json'')],
         body = JStr (''{\"message\":\"Failed to reboot satisfactory server\",\"response\":''
           @ quote ''{\"Code\":\"MissingParameter\"}'' @ ''}'')\<rparr>
   \<and> issued (lambda_execution Start [] [''INSTANCE_ID'' \<mapsto> []]
      \<lparr>EC2Client_constructor = \<lambda>r. None, Command_constructor = \<lambda>c. None,
       client_send = \<lambda>c cmd. Resolves Unserializable\<rparr>)
     = [(\<lparr>region = None\<rparr>, StartInstancesCommand [Some []])]
   \<and> completion (lambda_execution Start [] [''INSTANCE_ID'' \<mapsto> []]
      \<lparr>EC2Client_constructor = \<lambda>r. None, Command_constructor = \<lambda>c. None,
       client_send = \<lambda>c cmd. Resolves Unserializable\<rparr>)
     = Returns \<lparr>statusCode = 200, headers = [(''Content-Type'', ''text/json'')],
         body = JStr ''{\"message\":\"Failed to start satisfactory server\",\"response\":\"{}\"}''\<rparr>"
  using handler_settles
    [of "\<lparr>EC2Client_constructor = \<lambda>r. None, Command_constructor = \<lambda>c. None,
          client_send = \<lambda>c cmd. Rejects (Plain (JObj [(''Code'', JStr ''MissingParameter'')]))\<rparr>"
      Map.empty Reboot "[]"]
    handler_settles
    [of "\<lparr>EC2Client_constructor = \<lambda>r. None, Command_constructor = \<lambda>c. None,
          client_send = \<lambda>c cmd. Resolves Unserializable\<rparr>"
      "[''INSTANCE_ID'' \<mapsto> []]" Start "[]"]
  by (simp add: quote_def escape_char_def)

text \<open>
  The handler does not always return. With \<open>INSTANCE_ID\<close> unset and a library that
  constructs both objects: when the call is rejected with a value that cannot be
  serialised, \<open>JSON.stringify(error)\<close> throws inside the \<open>catch\<close> clause and the handler
  throws that \<open>TypeError\<close>; when the call never settles, the handler never returns.
\<close>

theorem handler_total_counterexample:
  "completion (lambda_execution Reboot [] Map.empty
      \<lparr>EC2Client_constructor = \<lambda>r. None, Command_constructor = \<lambda>c. None,
       client_send = \<lambda>c cmd. Rejects Unserializable\<rparr>)
     = Throws (Plain TypeError)
   \<and> completion (lambda_execution Reboot [] Map.empty
      \<lparr>EC2Client_constructor = \<lambda>r. None, Command_constructor = \<lambda>c. None,
       client_send = \<lambda>c cmd. Pending\<rparr>)
     = NeverReturns"
  by (simp add: execution_defs)


section \<open>Properties of the stack\<close>

lemma lower_names:
  "toLowerCase ''Start'' = ''start''"
  "toLowerCase ''Stop'' = ''stop''"
  "toLowerCase ''Reboot'' = ''reboot''"
  by code_simp+

lemma vpc_pair: "lookUpOrDefaultVpc p this v =
   (IVpc (p @ ''Vpc'') (if v \<noteq> [] then VpcLookupOptions (Some v) None else VpcLookupOptions None (Some True)),
    this @ [Vpc_fromLookup (p @ ''Vpc'') (if v \<noteq> [] then VpcLookupOptions (Some v) None else VpcLookupOptions None (Some True))])"
  by (simp add: lookUpOrDefaultVpc_def)

lemma subnet_pair: "publicOrLookupSubnet cfg this s a =
   (if s \<noteq> [] \<and> a \<noteq> [] then SubnetSelection (Some [ISubnet (Config.prefix cfg @ ''ServerSubnet'') a s]) None
      else SubnetSelection None (Some PUBLIC),
    this @ (if s \<noteq> [] \<and> a \<noteq> [] then [Subnet_fromSubnetAttributes (Config.prefix cfg @ ''ServerSubnet'') a s] else []))"
  by (simp add: publicOrLookupSubnet_def)

lemma bucket_pair: "findOrCreateBucket p this b =
   (IBucket (p @ ''SavesBucket'') (if b \<noteq> [] then b else token (p @ ''SavesBucket'') ''bucketName''),
    this @ [if b \<noteq> [] then Bucket_fromBucketName (p @ ''SavesBucket'') b else new_Bucket (p @ ''SavesBucket'')])"
  by (simp add: findOrCreateBucket_def)

lemma api_flag: "((case r of None \<Rightarrow> False | Some b \<Rightarrow> b) \<and> r = Some True) = (r = Some True)"
  by (cases r) auto

lemma stack_layout: "ServerHostingStack cfg =
  [Vpc_fromLookup (Config.prefix cfg @ ''Vpc'')
     (if Config.vpcId cfg \<noteq> [] then VpcLookupOptions (Some (Config.vpcId cfg)) None
      else VpcLookupOptions None (Some True))]
  @ (if Config.subnetId cfg \<noteq> [] \<and> Config.availabilityZone cfg \<noteq> []
     then [Subnet_fromSubnetAttributes (Config.prefix cfg @ ''ServerSubnet'')
             (Config.availabilityZone cfg) (Config.subnetId cfg)]
     else [])
  @ [new_SecurityGroup (Config.prefix cfg @ ''ServerSecurityGroup'')
       (IVpc (Config.prefix cfg @ ''Vpc'')
          (if Config.vpcId cfg \<noteq> [] then VpcLookupOptions (Some (Config.vpcId cfg)) None
           else VpcLookupOptions None (Some True)))
       ''Allow Satisfactory client to connect to server'',
     addIngressRule (Config.prefix cfg @ ''ServerSecurityGroup'') anyIpv4 (udp 7777) ''Game port'',
     addIngressRule (Config.prefix cfg @ ''ServerSecurityGroup'') anyIpv4 (udp 15000) ''Beacon port'',
     addIngressRule (Config.prefix cfg @ ''ServerSecurityGroup'') anyIpv4 (udp 15777) ''Query port'',
     new_Instance (Config.prefix cfg @ ''Server'')
       (InstanceProps ''m5a.xlarge''
          ''/aws/service/canonical/ubuntu/server/20.04/stable/current/amd64/hvm/ebs-gp2/ami-id''
          [(''/dev/sda1'', 30)]
          (if Config.subnetId cfg \<noteq> [] \<and> Config.availabilityZone cfg \<noteq> []
           then SubnetSelection (Some [ISubnet (Config.prefix cfg @ ''ServerSubnet'')
                  (Config.availabilityZone cfg) (Config.subnetId cfg)]) None
           else SubnetSelection None (Some PUBLIC))
          True
          (IVpc (Config.prefix cfg @ ''Vpc'')
             (if Config.vpcId cfg \<noteq> [] then VpcLookupOptions (Some (Config.vpcId cfg)) None
              else VpcLookupOptions None (Some True)))
          (Config.prefix cfg @ ''ServerSecurityGroup'')),
     addManagedPolicy (RoleOf (Config.prefix cfg @ ''Server'')) ''AmazonSSMManagedInstanceCore'',
     (if Config.bucketName cfg \<noteq> []
      then Bucket_fromBucketName (Config.prefix cfg @ ''SavesBucket'') (Config.bucketName cfg)
      else new_Bucket (Config.prefix cfg @ ''SavesBucket'')),
     grantReadWrite
       (IBucket (Config.prefix cfg @ ''SavesBucket'')
          (if Config.bucketName cfg \<noteq> [] then Config.bucketName cfg
           else token (Config.prefix cfg @ ''SavesBucket'') ''bucketName''))
       (RoleOf (Config.prefix cfg @ ''Server'')),
     addCommands (Config.prefix cfg @ ''Server'') ''sudo apt-get install unzip -y'',
     addCommands (Config.prefix cfg @ ''Server'')
       ''curl \"https://awscli.amazonaws.com/awscli-exe-linux-x86_64.zip\" -o \"awscliv2.zip\" && unzip awscliv2.zip && ./aws/install'',
     new_Asset (Config.prefix cfg @ ''InstallAsset'') ''./server-hosting/scripts/install.sh'',
     grantRead (Config.prefix cfg @ ''InstallAsset'') (RoleOf (Config.prefix cfg @ ''Server'')),
     addS3DownloadCommand (Config.prefix cfg @ ''Server'')
       (IBucket (Config.prefix cfg @ ''InstallAsset'')
          (token (Config.prefix cfg @ ''InstallAsset'') ''s3BucketName''))
       (token (Config.prefix cfg @ ''InstallAsset'') ''s3ObjectKey''),
     addExecuteFileCommand (Config.prefix cfg @ ''Server'')
       (''/tmp/'' @ token (Config.prefix cfg @ ''InstallAsset'') ''s3ObjectKey'')
       ((if Config.bucketName cfg \<noteq> [] then Config.bucketName cfg
           else token (Config.prefix cfg @ ''SavesBucket'') ''bucketName'')
        @ '' '' @ boolean_string (Config.useExperimentalBuild cfg))]
  @ (if Config.restartApi cfg = Some True
     then new_RestApi (Config.prefix cfg @ ''ServerApi'')
       # concat (map (\<lambda>h. createLambda cfg [] (Config.prefix cfg @ ''ServerApi'')
              (token (Config.prefix cfg @ ''Server'') ''instanceId'') h) [Start, Stop, Reboot])
     else [])"
proof (cases "Config.restartApi cfg = Some True")
  case True
  then show ?thesis
    unfolding ServerHostingStack_def Let_def vpc_pair subnet_pair bucket_pair prod.case api_flag
      IBucket.sel
    by (simp add: createLambda_def Let_def split del: if_split)
next
  case False
  then show ?thesis
    unfolding ServerHostingStack_def Let_def vpc_pair subnet_pair bucket_pair prod.case api_flag
      IBucket.sel
    by (simp split del: if_split)
qed

lemma vpc_lookups_append: "vpc_lookups (xs @ ys) = vpc_lookups xs @ vpc_lookups ys"
  by (induction xs rule: vpc_lookups.induct) simp_all

lemma subnet_imports_append: "subnet_imports (xs @ ys) = subnet_imports xs @ subnet_imports ys"
  by (induction xs rule: subnet_imports.induct) simp_all

lemma ingress_rules_append: "ingress_rules (xs @ ys) = ingress_rules xs @ ingress_rules ys"
  by (induction xs rule: ingress_rules.induct) simp_all

lemma security_groups_append: "security_groups (xs @ ys) = security_groups xs @ security_groups ys"
  by (induction xs rule: security_groups.induct) simp_all

lemma bucket_imports_append: "bucket_imports (xs @ ys) = bucket_imports xs @ bucket_imports ys"
  by (induction xs rule: bucket_imports.induct) simp_all

lemma buckets_created_append: "buckets_created (xs @ ys) = buckets_created xs @ buckets_created ys"
  by (induction xs rule: buckets_created.induct) simp_all

lemma read_write_grants_append: "read_write_grants (xs @ ys) = read_write_grants xs @ read_write_grants ys"
  by (induction xs rule: read_write_grants.induct) simp_all

lemma user_data_append: "user_data (xs @ ys) = user_data xs @ user_data ys"
  by (induction xs rule: user_data.induct) simp_all

lemma rest_apis_append: "rest_apis (xs @ ys) = rest_apis xs @ rest_apis ys"
  by (induction xs rule: rest_apis.induct) simp_all

lemma endpoints_append: "endpoints (xs @ ys) = endpoints xs @ endpoints ys"
  by (induction xs rule: endpoints.induct) simp_all

lemma api_resources_append: "api_resources (xs @ ys) = api_resources xs @ api_resources ys"
  by (induction xs rule: api_resources.induct) simp_all

lemma functions_created_append: "functions_created (xs @ ys) = functions_created xs @ functions_created ys"
  by (induction xs rule: functions_created.induct) simp_all

lemma function_grants_append: "function_grants (xs @ ys) = function_grants xs @ function_grants ys"
  by (induction xs rule: function_grants.induct) simp_all

lemmas projection_append = vpc_lookups_append subnet_imports_append ingress_rules_append
  security_groups_append bucket_imports_append buckets_created_append read_write_grants_append
  user_data_append rest_apis_append endpoints_append api_resources_append
  functions_created_append function_grants_append

lemma createLambda_calls: "createLambda cfg [] api inst h =
  [new_NodejsFunction (Config.prefix cfg @ HandlerType_string h @ ''ServerLambda'')
     (NodejsFunctionProps
        (''./server-hosting/lambda/'' @ toLowerCase (HandlerType_string h) @ ''.ts'')
        (HandlerType_string h @ '' game server'') 10 [(''INSTANCE_ID'', inst)] ''NODEJS_20_X''),
   addToRolePolicy (Config.prefix cfg @ HandlerType_string h @ ''ServerLambda'')
     (PolicyStatement [''ec2:'' @ HandlerType_string h @ ''Instances'']
        [''arn:aws:ec2:*:'' @ Config.account cfg @ '':instance/'' @ inst]),
   addResource api (toLowerCase (HandlerType_string h)),
   addMethod api (''/'' @ toLowerCase (HandlerType_string h)) ''GET''
     (Config.prefix cfg @ HandlerType_string h @ ''ServerLambda'')]"
  by (simp add: createLambda_def Let_def)

lemma vpc_lookups_stack: "vpc_lookups (ServerHostingStack cfg) =
   [(Config.prefix cfg @ ''Vpc'',
     if Config.vpcId cfg \<noteq> [] then VpcLookupOptions (Some (Config.vpcId cfg)) None
     else VpcLookupOptions None (Some True))]"
  unfolding stack_layout
  by (simp add: projection_append createLambda_calls)

lemma subnet_imports_stack: "subnet_imports (ServerHostingStack cfg) =
   (if Config.subnetId cfg \<noteq> [] \<and> Config.availabilityZone cfg \<noteq> []
    then [ISubnet (Config.prefix cfg @ ''ServerSubnet'') (Config.availabilityZone cfg)
            (Config.subnetId cfg)]
    else [])"
  unfolding stack_layout
  by (simp add: projection_append createLambda_calls)

lemma ingress_rules_stack: "ingress_rules (ServerHostingStack cfg) =
   [(Config.prefix cfg @ ''ServerSecurityGroup'', anyIpv4, udp 7777),
    (Config.prefix cfg @ ''ServerSecurityGroup'', anyIpv4, udp 15000),
    (Config.prefix cfg @ ''ServerSecurityGroup'', anyIpv4, udp 15777)]"
  unfolding stack_layout
  by (simp add: projection_append createLambda_calls)

lemma security_groups_stack:
  "security_groups (ServerHostingStack cfg) = [Config.prefix cfg @ ''ServerSecurityGroup'']"
  unfolding stack_layout
  by (simp add: projection_append createLambda_calls)

lemma bucket_imports_stack: "bucket_imports (ServerHostingStack cfg) =
   (if Config.bucketName cfg \<noteq> []
    then [IBucket (Config.prefix cfg @ ''SavesBucket'') (Config.bucketName cfg)] else [])"
  unfolding stack_layout
  by (simp add: projection_append createLambda_calls)

lemma buckets_created_stack: "buckets_created (ServerHostingStack cfg) =
   (if Config.bucketName cfg \<noteq> [] then [] else [Config.prefix cfg @ ''SavesBucket''])"
  unfolding stack_layout
  by (simp add: projection_append createLambda_calls)

lemma read_write_grants_stack: "read_write_grants (ServerHostingStack cfg) =
   [(IBucket (Config.prefix cfg @ ''SavesBucket'')
       (if Config.bucketName cfg \<noteq> [] then Config.bucketName cfg
        else token (Config.prefix cfg @ ''SavesBucket'') ''bucketName''),
     RoleOf (Config.prefix cfg @ ''Server''))]"
  unfolding stack_layout
  by (simp add: projection_append createLambda_calls)


lemma rest_apis_stack: "rest_apis (ServerHostingStack cfg) =
   (if Config.restartApi cfg = Some True then [Config.prefix cfg @ ''ServerApi''] else [])"
  unfolding stack_layout
  by (simp add: projection_append createLambda_calls)

lemma endpoints_stack: "endpoints (ServerHostingStack cfg) =
   (if Config.restartApi cfg = Some True
    then [(''GET'', ''/start'', Config.prefix cfg @ ''StartServerLambda''),
          (''GET'', ''/stop'', Config.prefix cfg @ ''StopServerLambda''),
          (''GET'', ''/reboot'', Config.prefix cfg @ ''RebootServerLambda'')]
    else [])"
  unfolding stack_layout
  by (simp add: projection_append createLambda_calls lower_names)

lemma api_resources_stack: "api_resources (ServerHostingStack cfg) =
   (if Config.restartApi cfg = Some True then [''start'', ''stop'', ''reboot''] else [])"
  unfolding stack_layout
  by (simp add: projection_append createLambda_calls lower_names)

lemma functions_created_stack: "functions_created (ServerHostingStack cfg) =
   (if Config.restartApi cfg = Some True
    then [(Config.prefix cfg @ ''StartServerLambda'',
           NodejsFunctionProps ''./server-hosting/lambda/start.ts'' ''Start game server'' 10
             [(''INSTANCE_ID'', token (Config.prefix cfg @ ''Server'') ''instanceId'')]
             ''NODEJS_20_X''),
          (Config.prefix cfg @ ''StopServerLambda'',
           NodejsFunctionProps ''./server-hosting/lambda/stop.ts'' ''Stop game server'' 10
             [(''INSTANCE_ID'', token (Config.prefix cfg @ ''Server'') ''instanceId'')]
             ''NODEJS_20_X''),
          (Config.prefix cfg @ ''RebootServerLambda'',
           NodejsFunctionProps ''./server-hosting/lambda/reboot.ts'' ''Reboot game server'' 10
             [(''INSTANCE_ID'', token (Config.prefix cfg @ ''Server'') ''instanceId'')]
             ''NODEJS_20_X'')]
    else [])"
  unfolding stack_layout
  by (simp add: projection_append createLambda_calls lower_names)

lemma function_grants_stack: "function_grants (ServerHostingStack cfg) =
   (if Config.restartApi cfg = Some True
    then [(Config.prefix cfg @ ''StartServerLambda'',
           PolicyStatement [''ec2:StartInstances'']
             [''arn:aws:ec2:*:'' @ Config.account cfg @ '':instance/''
                @ token (Config.prefix cfg @ ''Server'') ''instanceId'']),
          (Config.prefix cfg @ ''StopServerLambda'',
           PolicyStatement [''ec2:StopInstances'']
             [''arn:aws:ec2:*:'' @ Config.account cfg @ '':instance/''
                @ token (Config.prefix cfg @ ''Server'') ''instanceId'']),
          (Config.prefix cfg @ ''RebootServerLambda'',
           PolicyStatement [''ec2:RebootInstances'']
             [''arn:aws:ec2:*:'' @ Config.account cfg @ '':instance/''
                @ token (Config.prefix cfg @ ''Server'') ''instanceId''])]
    else [])"
  unfolding stack_layout
  by (simp add: projection_append createLambda_calls lower_names)




text \<open>
  Claim C3. When \<open>Config.restartApi\<close> is false or left out, the finished stack holds no
  REST API, no API resource, no endpoint, no function and no permission statement of a
  function. When it is true, the stack holds one REST API with the three endpoints
  \<open>GET /start\<close>, \<open>GET /stop\<close> and \<open>GET /reboot\<close>, each backed by its own function, and
  each function is granted the one action \<open>ec2:StartInstances\<close>, \<open>ec2:StopInstances\<close> or
  \<open>ec2:RebootInstances\<close> on the instance of the stack.
\<close>

theorem control_api_gating:
  "(Config.restartApi cfg \<noteq> Some True \<longrightarrow>
      rest_apis (ServerHostingStack cfg) = []
      \<and> api_resources (ServerHostingStack cfg) = []
      \<and> endpoints (ServerHostingStack cfg) = []
      \<and> functions_created (ServerHostingStack cfg) = []
      \<and> function_grants (ServerHostingStack cfg) = [])
   \<and> (Config.restartApi cfg = Some True \<longrightarrow>
      rest_apis (ServerHostingStack cfg) = [Config.prefix cfg @ ''ServerApi'']
      \<and> api_resources (ServerHostingStack cfg) = [''start'', ''stop'', ''reboot'']
      \<and> endpoints (ServerHostingStack cfg) =
         [(''GET'', ''/start'', Config.prefix cfg @ ''StartServerLambda''),
          (''GET'', ''/stop'', Config.prefix cfg @ ''StopServerLambda''),
          (''GET'', ''/reboot'', Config.prefix cfg @ ''RebootServerLambda'')]
      \<and> map fst (functions_created (ServerHostingStack cfg)) =
         [Config.prefix cfg @ ''StartServerLambda'', Config.prefix cfg @ ''StopServerLambda'',
          Config.prefix cfg @ ''RebootServerLambda'']
      \<and> function_grants (ServerHostingStack cfg) =
         [(Config.prefix cfg @ ''StartServerLambda'',
           PolicyStatement [''ec2:StartInstances'']
             [''arn:aws:ec2:*:'' @ Config.account cfg @ '':instance/''
                @ token (Config.prefix cfg @ ''Server'') ''instanceId'']),
          (Config.prefix cfg @ ''StopServerLambda'',
           PolicyStatement [''ec2:StopInstances'']
             [''arn:aws:ec2:*:'' @ Config.account cfg @ '':instance/''
                @ token (Config.prefix cfg @ ''Server'') ''instanceId'']),
          (Config.prefix cfg @ ''RebootServerLambda'',
           PolicyStatement [''ec2:RebootInstances'']
             [''arn:aws:ec2:*:'' @ Config.account cfg @ '':instance/''
                @ token (Config.prefix cfg @ ''Server'') ''instanceId''])])"
  by (simp add: rest_apis_stack api_resources_stack endpoints_stack functions_created_stack
      function_grants_stack)

theorem control_api_gating_witness:
  "Config.restartApi
      \<lparr>prefix = ''SatisfactoryHosting'', account = ''123456789012'', vpcId = [],
        subnetId = [], availabilityZone = [], bucketName = [],
        useExperimentalBuild = False, restartApi = None\<rparr> \<noteq> Some True
   \<and> endpoints (ServerHostingStack
      \<lparr>prefix = ''SatisfactoryHosting'', account = ''123456789012'', vpcId = [],
        subnetId = [], availabilityZone = [], bucketName = [],
        useExperimentalBuild = False, restartApi = None\<rparr>) = []
   \<and> function_grants (ServerHostingStack
      \<lparr>prefix = ''SatisfactoryHosting'', account = ''123456789012'', vpcId = [],
        subnetId = [], availabilityZone = [], bucketName = [],
        useExperimentalBuild = False, restartApi = None\<rparr>) = []
   \<and> Config.restartApi
      \<lparr>prefix = ''SatisfactoryHosting'', account = ''123456789012'', vpcId = [],
        subnetId = [], availabilityZone = [], bucketName = [],
        useExperimentalBuild = False, restartApi = Some False\<rparr> \<noteq> Some True
   \<and> endpoints (ServerHostingStack
      \<lparr>prefix = ''SatisfactoryHosting'', account = ''123456789012'', vpcId = [],
        subnetId = [], availabilityZone = [], bucketName = [],
        useExperimentalBuild = False, restartApi = Some False\<rparr>) = []
   \<and> function_grants (ServerHostingStack
      \<lparr>prefix = ''SatisfactoryHosting'', account = ''123456789012'', vpcId = [],
        subnetId = [], availabilityZone = [], bucketName = [],
        useExperimentalBuild = False, restartApi = Some False\<rparr>) = []
   \<and> Config.restartApi
      \<lparr>prefix = ''SatisfactoryHosting'', account = ''123456789012'', vpcId = ''vpc-0abc'',
        subnetId = ''subnet-0abc'', availabilityZone = ''eu-west-1a'', bucketName = ''my-saves'',
        useExperimentalBuild = False, restartApi = Some True\<rparr> = Some True
   \<and> endpoints (ServerHostingStack
      \<lparr>prefix = ''SatisfactoryHosting'', account = ''123456789012'', vpcId = ''vpc-0abc'',
        subnetId = ''subnet-0abc'', availabilityZone = ''eu-west-1a'', bucketName = ''my-saves'',
        useExperimentalBuild = False, restartApi = Some True\<rparr>) =
       [(''GET'', ''/start'', ''SatisfactoryHostingStartServerLambda''),
        (''GET'', ''/stop'', ''SatisfactoryHostingStopServerLambda''),
        (''GET'', ''/reboot'', ''SatisfactoryHostingRebootServerLambda'')]
   \<and> map (actions \<circ> snd) (function_grants (ServerHostingStack
      \<lparr>prefix = ''SatisfactoryHosting'', account = ''123456789012'', vpcId = ''vpc-0abc'',
        subnetId = ''subnet-0abc'', availabilityZone = ''eu-west-1a'', bucketName = ''my-saves'',
        useExperimentalBuild = False, restartApi = Some True\<rparr>)) =
       [[''ec2:StartInstances''], [''ec2:StopInstances''], [''ec2:RebootInstances'']]"
  using control_api_gating [of "\<lparr>prefix = ''SatisfactoryHosting'', account = ''123456789012'', vpcId = [],
        subnetId = [], availabilityZone = [], bucketName = [],
        useExperimentalBuild = False, restartApi = None\<rparr>"]
    control_api_gating [of "\<lparr>prefix = ''SatisfactoryHosting'', account = ''123456789012'', vpcId = [],
        subnetId = [], availabilityZone = [], bucketName = [],
        useExperimentalBuild = False, restartApi = Some False\<rparr>"]
    control_api_gating [of "\<lparr>prefix = ''SatisfactoryHosting'', account = ''123456789012'', vpcId = ''vpc-0abc'',
        subnetId = ''subnet-0abc'', availabilityZone = ''eu-west-1a'', bucketName = ''my-saves'',
        useExperimentalBuild = False, restartApi = Some True\<rparr>"]
  by simp

text \<open>
  Claim C4. When \<open>Config.vpcId\<close> is set (a non-empty string), the network resolver makes
  one lookup, by that identifier and with no \<open>isDefault\<close>, and the whole stack holds no
  other network lookup. When it is not set (the empty string), the one lookup is the one
  for the default network.
\<close>

theorem network_resolver:
  "(Config.vpcId cfg \<noteq> [] \<longrightarrow>
      lookUpOrDefaultVpc (Config.prefix cfg) this (Config.vpcId cfg) =
        (IVpc (Config.prefix cfg @ ''Vpc'') (VpcLookupOptions (Some (Config.vpcId cfg)) None),
         this @ [Vpc_fromLookup (Config.prefix cfg @ ''Vpc'')
                   (VpcLookupOptions (Some (Config.vpcId cfg)) None)])
      \<and> vpc_lookups (ServerHostingStack cfg) =
        [(Config.prefix cfg @ ''Vpc'', VpcLookupOptions (Some (Config.vpcId cfg)) None)])
   \<and> (Config.vpcId cfg = [] \<longrightarrow>
      lookUpOrDefaultVpc (Config.prefix cfg) this (Config.vpcId cfg) =
        (IVpc (Config.prefix cfg @ ''Vpc'') (VpcLookupOptions None (Some True)),
         this @ [Vpc_fromLookup (Config.prefix cfg @ ''Vpc'')
                   (VpcLookupOptions None (Some True))])
      \<and> vpc_lookups (ServerHostingStack cfg) =
        [(Config.prefix cfg @ ''Vpc'', VpcLookupOptions None (Some True))])"
  by (simp add: vpc_pair vpc_lookups_stack)

theorem network_resolver_witness:
  "Config.vpcId
      \<lparr>prefix = ''SatisfactoryHosting'', account = ''123456789012'', vpcId = ''vpc-0abc'',
        subnetId = ''subnet-0abc'', availabilityZone = ''eu-west-1a'', bucketName = ''my-saves'',
        useExperimentalBuild = False, restartApi = Some True\<rparr> \<noteq> []
   \<and> vpc_lookups (ServerHostingStack
      \<lparr>prefix = ''SatisfactoryHosting'', account = ''123456789012'', vpcId = ''vpc-0abc'',
        subnetId = ''subnet-0abc'', availabilityZone = ''eu-west-1a'', bucketName = ''my-saves'',
        useExperimentalBuild = False, restartApi = Some True\<rparr>) =
       [(''SatisfactoryHostingVpc'', VpcLookupOptions (Some ''vpc-0abc'') None)]
   \<and> Config.vpcId
      \<lparr>prefix = ''SatisfactoryHosting'', account = ''123456789012'', vpcId = [],
        subnetId = [], availabilityZone = [], bucketName = [],
        useExperimentalBuild = False, restartApi = None\<rparr> = []
   \<and> vpc_lookups (ServerHostingStack
      \<lparr>prefix = ''SatisfactoryHosting'', account = ''123456789012'', vpcId = [],
        subnetId = [], availabilityZone = [], bucketName = [],
        useExperimentalBuild = False, restartApi = None\<rparr>) =
       [(''SatisfactoryHostingVpc'', VpcLookupOptions None (Some True))]"
  using network_resolver [of "\<lparr>prefix = ''SatisfactoryHosting'', account = ''123456789012'', vpcId = ''vpc-0abc'',
        subnetId = ''subnet-0abc'', availabilityZone = ''eu-west-1a'', bucketName = ''my-saves'',
        useExperimentalBuild = False, restartApi = Some True\<rparr>" "[]"]
    network_resolver [of "\<lparr>prefix = ''SatisfactoryHosting'', account = ''123456789012'', vpcId = [],
        subnetId = [], availabilityZone = [], bucketName = [],
        useExperimentalBuild = False, restartApi = None\<rparr>" "[]"]
  by simp

text \<open>
  Claim C5. When \<open>Config.subnetId\<close> and \<open>Config.availabilityZone\<close> are both set
  (non-empty), the subnet resolver imports the subnet with exactly these two attributes
  and selects it alone. In every other case, both empty or only one of them set, it
  imports nothing and selects by the subnet type \<open>PUBLIC\<close>.
\<close>

theorem subnet_resolver:
  "(Config.subnetId cfg \<noteq> [] \<and> Config.availabilityZone cfg \<noteq> [] \<longrightarrow>
      publicOrLookupSubnet cfg this (Config.subnetId cfg) (Config.availabilityZone cfg) =
        (SubnetSelection
           (Some [ISubnet (Config.prefix cfg @ ''ServerSubnet'') (Config.availabilityZone cfg)
                    (Config.subnetId cfg)])
           None,
         this @ [Subnet_fromSubnetAttributes (Config.prefix cfg @ ''ServerSubnet'')
                   (Config.availabilityZone cfg) (Config.subnetId cfg)])
      \<and> subnet_imports (ServerHostingStack cfg) =
        [ISubnet (Config.prefix cfg @ ''ServerSubnet'') (Config.availabilityZone cfg)
           (Config.subnetId cfg)])
   \<and> (Config.subnetId cfg = [] \<or> Config.availabilityZone cfg = [] \<longrightarrow>
      publicOrLookupSubnet cfg this (Config.subnetId cfg) (Config.availabilityZone cfg) =
        (SubnetSelection None (Some PUBLIC), this)
      \<and> subnet_imports (ServerHostingStack cfg) = [])"
  by (auto simp add: subnet_pair subnet_imports_stack)

theorem subnet_resolver_witness:
  "publicOrLookupSubnet
      \<lparr>prefix = ''SatisfactoryHosting'', account = ''123456789012'', vpcId = ''vpc-0abc'',
        subnetId = ''subnet-0abc'', availabilityZone = ''eu-west-1a'', bucketName = ''my-saves'',
        useExperimentalBuild = False, restartApi = Some True\<rparr> [] ''subnet-0abc'' ''eu-west-1a'' =
     (SubnetSelection (Some [ISubnet ''SatisfactoryHostingServerSubnet'' ''eu-west-1a''
        ''subnet-0abc'']) None,
      [Subnet_fromSubnetAttributes ''SatisfactoryHostingServerSubnet'' ''eu-west-1a''
        ''subnet-0abc''])
   \<and> subnet_imports (ServerHostingStack
      \<lparr>prefix = ''SatisfactoryHosting'', account = ''123456789012'', vpcId = ''vpc-0abc'',
        subnetId = ''subnet-0abc'', availabilityZone = ''eu-west-1a'', bucketName = ''my-saves'',
        useExperimentalBuild = False, restartApi = Some True\<rparr>) = [ISubnet ''SatisfactoryHostingServerSubnet'' ''eu-west-1a'' ''subnet-0abc'']
   \<and> publicOrLookupSubnet
      \<lparr>prefix = ''SatisfactoryHosting'', account = ''123456789012'', vpcId = [],
        subnetId = [], availabilityZone = [], bucketName = [],
        useExperimentalBuild = False, restartApi = None\<rparr> [] [] [] = (SubnetSelection None (Some PUBLIC), [])
   \<and> subnet_imports (ServerHostingStack
      \<lparr>prefix = ''SatisfactoryHosting'', account = ''123456789012'', vpcId = [],
        subnetId = [], availabilityZone = [], bucketName = [],
        useExperimentalBuild = False, restartApi = None\<rparr>) = []
   \<and> publicOrLookupSubnet
      \<lparr>prefix = ''SatisfactoryHosting'', account = ''123456789012'', vpcId = [],
        subnetId = ''subnet-0abc'', availabilityZone = [], bucketName = [],
        useExperimentalBuild = False, restartApi = None\<rparr> [] ''subnet-0abc'' [] = (SubnetSelection None (Some PUBLIC), [])
   \<and> subnet_imports (ServerHostingStack
      \<lparr>prefix = ''SatisfactoryHosting'', account = ''123456789012'', vpcId = [],
        subnetId = ''subnet-0abc'', availabilityZone = [], bucketName = [],
        useExperimentalBuild = False, restartApi = None\<rparr>) = []
   \<and> publicOrLookupSubnet
      \<lparr>prefix = ''SatisfactoryHosting'', account = ''123456789012'', vpcId = [],
        subnetId = [], availabilityZone = ''eu-west-1a'', bucketName = [],
        useExperimentalBuild = False, restartApi = None\<rparr> [] [] ''eu-west-1a'' = (SubnetSelection None (Some PUBLIC), [])
   \<and> subnet_imports (ServerHostingStack
      \<lparr>prefix = ''SatisfactoryHosting'', account = ''123456789012'', vpcId = [],
        subnetId = [], availabilityZone = ''eu-west-1a'', bucketName = [],
        useExperimentalBuild = False, restartApi = None\<rparr>) = []"
  using subnet_resolver [of "\<lparr>prefix = ''SatisfactoryHosting'', account = ''123456789012'', vpcId = ''vpc-0abc'',
        subnetId = ''subnet-0abc'', availabilityZone = ''eu-west-1a'', bucketName = ''my-saves'',
        useExperimentalBuild = False, restartApi = Some True\<rparr>" "[]"]
    subnet_resolver [of "\<lparr>prefix = ''SatisfactoryHosting'', account = ''123456789012'', vpcId = [],
        subnetId = [], availabilityZone = [], bucketName = [],
        useExperimentalBuild = False, restartApi = None\<rparr>" "[]"]
    subnet_resolver [of "\<lparr>prefix = ''SatisfactoryHosting'', account = ''123456789012'', vpcId = [],
        subnetId = ''subnet-0abc'', availabilityZone = [], bucketName = [],
        useExperimentalBuild = False, restartApi = None\<rparr>" "[]"]
    subnet_resolver [of "\<lparr>prefix = ''SatisfactoryHosting'', account = ''123456789012'', vpcId = [],
        subnetId = [], availabilityZone = ''eu-west-1a'', bucketName = [],
        useExperimentalBuild = False, restartApi = None\<rparr>" "[]"]
  by simp

text \<open>
  Claim C6. When \<open>Config.bucketName\<close> is set (non-empty), the storage resolver imports
  the bucket of that name and the stack creates no bucket. When it is not set, the
  resolver creates one bucket, passing no name, so that its name is a value of the
  deployment. In both cases the stack grants read and write access on the resolved
  bucket to the role of the instance, and makes no other such grant.
\<close>

theorem storage_resolver:
  "(Config.bucketName cfg \<noteq> [] \<longrightarrow>
      findOrCreateBucket (Config.prefix cfg) this (Config.bucketName cfg) =
        (IBucket (Config.prefix cfg @ ''SavesBucket'') (Config.bucketName cfg),
         this @ [Bucket_fromBucketName (Config.prefix cfg @ ''SavesBucket'')
                   (Config.bucketName cfg)])
      \<and> bucket_imports (ServerHostingStack cfg) =
        [IBucket (Config.prefix cfg @ ''SavesBucket'') (Config.bucketName cfg)]
      \<and> buckets_created (ServerHostingStack cfg) = []
      \<and> read_write_grants (ServerHostingStack cfg) =
        [(IBucket (Config.prefix cfg @ ''SavesBucket'') (Config.bucketName cfg),
          RoleOf (Config.prefix cfg @ ''Server''))])
   \<and> (Config.bucketName cfg = [] \<longrightarrow>
      findOrCreateBucket (Config.prefix cfg) this (Config.bucketName cfg) =
        (IBucket (Config.prefix cfg @ ''SavesBucket'')
           (token (Config.prefix cfg @ ''SavesBucket'') ''bucketName''),
         this @ [new_Bucket (Config.prefix cfg @ ''SavesBucket'')])
      \<and> bucket_imports (ServerHostingStack cfg) = []
      \<and> buckets_created (ServerHostingStack cfg) = [Config.prefix cfg @ ''SavesBucket'']
      \<and> read_write_grants (ServerHostingStack cfg) =
        [(IBucket (Config.prefix cfg @ ''SavesBucket'')
            (token (Config.prefix cfg @ ''SavesBucket'') ''bucketName''),
          RoleOf (Config.prefix cfg @ ''Server''))])"
  by (simp add: bucket_pair bucket_imports_stack buckets_created_stack read_write_grants_stack)

theorem storage_resolver_witness:
  "Config.bucketName
      \<lparr>prefix = ''SatisfactoryHosting'', account = ''123456789012'', vpcId = ''vpc-0abc'',
        subnetId = ''subnet-0abc'', availabilityZone = ''eu-west-1a'', bucketName = ''my-saves'',
        useExperimentalBuild = False, restartApi = Some True\<rparr> \<noteq> []
   \<and> bucket_imports (ServerHostingStack
      \<lparr>prefix = ''SatisfactoryHosting'', account = ''123456789012'', vpcId = ''vpc-0abc'',
        subnetId = ''subnet-0abc'', availabilityZone = ''eu-west-1a'', bucketName = ''my-saves'',
        useExperimentalBuild = False, restartApi = Some True\<rparr>) = [IBucket ''SatisfactoryHostingSavesBucket'' ''my-saves'']
   \<and> buckets_created (ServerHostingStack
      \<lparr>prefix = ''SatisfactoryHosting'', account = ''123456789012'', vpcId = ''vpc-0abc'',
        subnetId = ''subnet-0abc'', availabilityZone = ''eu-west-1a'', bucketName = ''my-saves'',
        useExperimentalBuild = False, restartApi = Some True\<rparr>) = []
   \<and> read_write_grants (ServerHostingStack
      \<lparr>prefix = ''SatisfactoryHosting'', account = ''123456789012'', vpcId = ''vpc-0abc'',
        subnetId = ''subnet-0abc'', availabilityZone = ''eu-west-1a'', bucketName = ''my-saves'',
        useExperimentalBuild = False, restartApi = Some True\<rparr>) =
       [(IBucket ''SatisfactoryHostingSavesBucket'' ''my-saves'',
         RoleOf ''SatisfactoryHostingServer'')]
   \<and> Config.bucketName
      \<lparr>prefix = ''SatisfactoryHosting'', account = ''123456789012'', vpcId = [],
        subnetId = [], availabilityZone = [], bucketName = [],
        useExperimentalBuild = False, restartApi = None\<rparr> = []
   \<and> bucket_imports (ServerHostingStack
      \<lparr>prefix = ''SatisfactoryHosting'', account = ''123456789012'', vpcId = [],
        subnetId = [], availabilityZone = [], bucketName = [],
        useExperimentalBuild = False, restartApi = None\<rparr>) = []
   \<and> buckets_created (ServerHostingStack
      \<lparr>prefix = ''SatisfactoryHosting'', account = ''123456789012'', vpcId = [],
        subnetId = [], availabilityZone = [], bucketName = [],
        useExperimentalBuild = False, restartApi = None\<rparr>) = [''SatisfactoryHostingSavesBucket'']
   \<and> read_write_grants (ServerHostingStack
      \<lparr>prefix = ''SatisfactoryHosting'', account = ''123456789012'', vpcId = [],
        subnetId = [], availabilityZone = [], bucketName = [],
        useExperimentalBuild = False, restartApi = None\<rparr>) =
       [(IBucket ''SatisfactoryHostingSavesBucket''
           ''${Token[SatisfactoryHostingSavesBucket.bucketName]}'',
         RoleOf ''SatisfactoryHostingServer'')]"
  using storage_resolver [of "\<lparr>prefix = ''SatisfactoryHosting'', account = ''123456789012'', vpcId = ''vpc-0abc'',
        subnetId = ''subnet-0abc'', availabilityZone = ''eu-west-1a'', bucketName = ''my-saves'',
        useExperimentalBuild = False, restartApi = Some True\<rparr>" "[]"]
    storage_resolver [of "\<lparr>prefix = ''SatisfactoryHosting'', account = ''123456789012'', vpcId = [],
        subnetId = [], availabilityZone = [], bucketName = [],
        useExperimentalBuild = False, restartApi = None\<rparr>" "[]"]
  by (simp add: token_def)

text \<open>
  Claim C7. The finished stack holds one security group and exactly three ingress
  rules, all on that group and all from any IPv4 address: UDP 7777, UDP 15000 and
  UDP 15777. This is so for every configuration.
\<close>

theorem security_boundary:
  "security_groups (ServerHostingStack cfg) = [Config.prefix cfg @ ''ServerSecurityGroup'']
   \<and> ingress_rules (ServerHostingStack cfg) =
     [(Config.prefix cfg @ ''ServerSecurityGroup'', anyIpv4, udp 7777),
      (Config.prefix cfg @ ''ServerSecurityGroup'', anyIpv4, udp 15000),
      (Config.prefix cfg @ ''ServerSecurityGroup'', anyIpv4, udp 15777)]"
  by (simp add: security_groups_stack ingress_rules_stack)



end
